theory Spec2Isabelle
  imports Main "HOL-Library.Sublist"
begin

section \<open>Values shared by the whole service\<close>

text \<open>
  The service is one Python module, \<^verbatim>\<open>main.py\<close>: a configuration dictionary built from
  the process environment when the module is imported, two helper functions that each
  compose one e-mail and hand it to an SMTP relay, and three HTTP routes.  Python strings
  are modelled as \<^typ>\<open>string\<close>, the dictionaries the module writes as association
  lists, the parsed JSON object of a request as a map from keys to values, exceptions as
  values of the type \<open>exc\<close>, and everything the module does to the outside (the relay,
  the clock, the logger) as a change of an explicit \<open>world\<close>.
\<close>

subsection \<open>Exceptions\<close>

text \<open>
  Every exception a request can meet is an instance of Python's \<^verbatim>\<open>Exception\<close>:
  \<^item> \<open>RelayError s\<close>: anything \<^verbatim>\<open>smtplib\<close> raises while talking to the relay
    (connection, TLS, authentication, send or quit errors); \<open>s\<close> is \<^verbatim>\<open>str(e)\<close>;
  \<^item> \<open>HTTPException code detail\<close>: the exception of the web framework.
\<close>

datatype exc = RelayError string | HTTPException nat string

text \<open>
  The one exception outside request handling: \<^verbatim>\<open>int(s)\<close> raises \<^verbatim>\<open>ValueError\<close> on a
  string \<open>s\<close> that is no integer literal, while the module is imported.
\<close>

datatype startup_error = ValueError string

subsection \<open>Decimal numerals\<close>

fun show_nat :: "nat \<Rightarrow> string" where
  "show_nat n =
     (if n < 10 then [char_of (48 + n)]
      else show_nat (n div 10) @ [char_of (48 + n mod 10)])"

declare show_nat.simps [simp del]

text \<open>\<open>zpad w n\<close> is the \<^verbatim>\<open>%0wd\<close> rendering of a natural number.\<close>

definition zpad :: "nat \<Rightarrow> nat \<Rightarrow> string" where
  "zpad w n = replicate (w - length (show_nat n)) (CHR ''0'') @ show_nat n"

text \<open>\<^verbatim>\<open>str(e)\<close>; for the framework's exception it is \<^verbatim>\<open>f"{status_code}: {detail}"\<close>.\<close>

fun str_exc :: "exc \<Rightarrow> string" where
  "str_exc (RelayError s) = s"
| "str_exc (HTTPException code detail) = show_nat code @ '': '' @ detail"

subsection \<open>JSON values\<close>

text \<open>
  Request and response bodies.  A Python \<^verbatim>\<open>dict\<close> literal is the association list
  of its items in the order written.
\<close>

datatype json = JNull | JBool bool | JInt int | JStr string | JObj "(string \<times> json) list"

section \<open>Data model\<close>

text \<open>
  \<^verbatim>\<open>class ConsultationRequest(BaseModel)\<close>: \<open>company\<close> is \<^verbatim>\<open>Optional[str] = None\<close>.
\<close>

record ConsultationRequest =
  name :: string
  email :: string
  company :: "string option"
  message :: string

text \<open>The dictionary \<^verbatim>\<open>EMAIL_CONFIG\<close>, one field per key.\<close>

record EmailConfig =
  smtp_server :: string
  smtp_port :: int
  sender_email :: string
  sender_password :: string
  receiver_email :: string

section \<open>Configuration from the environment\<close>

type_synonym environ = "string \<rightharpoonup> string"

text \<open>\<^verbatim>\<open>os.getenv(key, default)\<close>.\<close>

definition getenv :: "environ \<Rightarrow> string \<Rightarrow> string \<Rightarrow> string" where
  "getenv env key dflt = (case env key of None \<Rightarrow> dflt | Some v \<Rightarrow> v)"

text \<open>
  The builtin \<^verbatim>\<open>int(s)\<close> on a string, base 10: surrounding whitespace is dropped, one
  sign is allowed, then decimal digits follow, where a single underscore may stand between
  two digits.  Anything else raises \<^verbatim>\<open>ValueError\<close>.
\<close>

definition is_space :: "char \<Rightarrow> bool" where
  "is_space ch =
     (ch \<in> set [CHR 0x20, CHR 0x09, CHR 0x0A, CHR 0x0B, CHR 0x0C, CHR 0x0D,
                 CHR 0x1C, CHR 0x1D, CHR 0x1E, CHR 0x1F, CHR 0x85, CHR 0xA0])"

definition strip :: "string \<Rightarrow> string" where
  "strip s = rev (dropWhile is_space (rev (dropWhile is_space s)))"

definition digit_of :: "char \<Rightarrow> nat option" where
  "digit_of ch =
     (let k = (of_char ch :: nat) in if 48 \<le> k \<and> k \<le> 57 then Some (k - 48) else None)"

fun digits_from :: "nat \<Rightarrow> string \<Rightarrow> nat option" where
  "digits_from acc [] = Some acc"
| "digits_from acc (ch # cs) =
     (if ch = CHR ''_'' then
        (case cs of
           [] \<Rightarrow> None
         | ch' # cs' \<Rightarrow>
             (case digit_of ch' of
                None \<Rightarrow> None
              | Some d \<Rightarrow> digits_from (10 * acc + d) cs'))
      else
        (case digit_of ch of
           None \<Rightarrow> None
         | Some d \<Rightarrow> digits_from (10 * acc + d) cs))"

definition py_int :: "string \<Rightarrow> startup_error + int" where
  "py_int s =
     (case strip s of
        [] \<Rightarrow> Inl (ValueError s)
      | ch # cs \<Rightarrow>
          (let negative = (ch = CHR ''-'');
               body = (if ch = CHR ''-'' \<or> ch = CHR ''+'' then cs else ch # cs)
           in case body of
                [] \<Rightarrow> Inl (ValueError s)
              | d # ds \<Rightarrow>
                  (case digit_of d of
                     None \<Rightarrow> Inl (ValueError s)
                   | Some v \<Rightarrow>
                       (case digits_from v ds of
                          None \<Rightarrow> Inl (ValueError s)
                        | Some n \<Rightarrow> Inr (if negative then - int n else int n)))))"

text \<open>
  The module-level assignment of \<^verbatim>\<open>EMAIL_CONFIG\<close>.  The only item that can raise is
  \<^verbatim>\<open>int(os.getenv("SMTP_PORT", "587"))\<close>; when it does, the import of the module fails
  and the service never starts.
\<close>

definition EMAIL_CONFIG :: "environ \<Rightarrow> startup_error + EmailConfig" where
  "EMAIL_CONFIG env =
     (case py_int (getenv env ''SMTP_PORT'' ''587'') of
        Inl e \<Rightarrow> Inl e
      | Inr port \<Rightarrow>
          Inr \<lparr> smtp_server = getenv env ''SMTP_SERVER'' ''smtp.gmail.com'',
                smtp_port = port,
                sender_email = getenv env ''SENDER_EMAIL'' ''your-email@gmail.com'',
                sender_password = getenv env ''SENDER_PASSWORD'' ''your-app-password'',
                receiver_email = getenv env ''RECEIVER_EMAIL'' ''hello@neuralforge.ai'' \<rparr>)"

section \<open>The outside world\<close>

subsection \<open>Clock readings\<close>

text \<open>A naive \<^verbatim>\<open>datetime\<close>, as \<^verbatim>\<open>datetime.now()\<close> returns it (no time zone).\<close>

record datetime =
  year :: nat
  month :: nat
  day :: nat
  hour :: nat
  minute :: nat
  second :: nat
  microsecond :: nat

text \<open>\<^verbatim>\<open>t.strftime('%Y-%m-%d %H:%M:%S')\<close>.\<close>

definition strftime :: "datetime \<Rightarrow> string" where
  "strftime t =
     zpad 4 (year t) @ ''-'' @ zpad 2 (month t) @ ''-'' @ zpad 2 (day t) @ '' '' @
     zpad 2 (hour t) @ '':'' @ zpad 2 (minute t) @ '':'' @ zpad 2 (second t)"

text \<open>
  \<^verbatim>\<open>t.isoformat()\<close>: \<^verbatim>\<open>YYYY-MM-DDTHH:MM:SS.ffffff\<close>, and \<^verbatim>\<open>YYYY-MM-DDTHH:MM:SS\<close> when the
  microsecond is 0.
\<close>

definition isoformat :: "datetime \<Rightarrow> string" where
  "isoformat t =
     zpad 4 (year t) @ ''-'' @ zpad 2 (month t) @ ''-'' @ zpad 2 (day t) @ ''T'' @
     zpad 2 (hour t) @ '':'' @ zpad 2 (minute t) @ '':'' @ zpad 2 (second t) @
     (if microsecond t = 0 then [] else ''.'' @ zpad 6 (microsecond t))"

subsection \<open>E-mail messages\<close>

text \<open>\<^verbatim>\<open>MIMEText(text, subtype)\<close>, and a \<^verbatim>\<open>MIMEMultipart(subtype)\<close> with the headers
  assigned to it and the parts attached to it, both in order.\<close>

datatype MIMEText = MIMEText string string

record MIMEMultipart =
  subtype :: string
  headers :: "(string \<times> string) list"
  payload :: "MIMEText list"

subsection \<open>The relay, the clock and the logger\<close>

text \<open>
  The calls the module makes on \<^verbatim>\<open>smtplib\<close>: the constructor \<^verbatim>\<open>SMTP(host, port)\<close>, which
  connects; \<^verbatim>\<open>starttls()\<close>; \<^verbatim>\<open>login(user, password)\<close>; \<^verbatim>\<open>send_message(msg)\<close>; and
  \<open>Exit\<close>, the \<^verbatim>\<open>__exit__\<close> of the \<^verbatim>\<open>with\<close> statement, which quits and closes the
  connection.
\<close>

datatype smtp_op =
  SMTP string int
| Starttls
| Login string string
| Send_message MIMEMultipart
| Exit

datatype level = INFO | ERROR

text \<open>
  The relay is an arbitrary function of the history of calls and of the call attempted:
  \<open>None\<close> when the call returns, \<open>Some e\<close> when it raises \<open>e\<close>.  Every call is
  recorded with its outcome in \<open>smtp_trace\<close>.  The clock gives its \<open>n\<close>-th reading
  at the \<open>n\<close>-th call of \<^verbatim>\<open>datetime.now()\<close>.
\<close>

record world =
  clock :: "nat \<Rightarrow> datetime"
  clock_reads :: nat
  relay :: "(smtp_op \<times> exc option) list \<Rightarrow> smtp_op \<Rightarrow> exc option"
  smtp_trace :: "(smtp_op \<times> exc option) list"
  log_lines :: "(level \<times> string) list"

definition datetime_now :: "world \<Rightarrow> datetime \<times> world" where
  "datetime_now w = (clock w (clock_reads w), w\<lparr>clock_reads := Suc (clock_reads w)\<rparr>)"

definition logger_info :: "string \<Rightarrow> world \<Rightarrow> world" where
  "logger_info s w = w\<lparr>log_lines := log_lines w @ [(INFO, s)]\<rparr>"

definition logger_error :: "string \<Rightarrow> world \<Rightarrow> world" where
  "logger_error s w = w\<lparr>log_lines := log_lines w @ [(ERROR, s)]\<rparr>"

definition smtp_call :: "smtp_op \<Rightarrow> world \<Rightarrow> (exc + unit) \<times> world" where
  "smtp_call op w =
     (let outcome = relay w (smtp_trace w) op;
          w' = w\<lparr>smtp_trace := smtp_trace w @ [(op, outcome)]\<rparr>
      in (case outcome of None \<Rightarrow> (Inr (), w') | Some e \<Rightarrow> (Inl e, w')))"

subsection \<open>Control flow\<close>

text \<open>Sequencing: an exception of the first statement skips the rest.\<close>

definition bind_io ::
  "(world \<Rightarrow> (exc + 'a) \<times> world) \<Rightarrow> ('a \<Rightarrow> world \<Rightarrow> (exc + 'b) \<times> world) \<Rightarrow>
   world \<Rightarrow> (exc + 'b) \<times> world" where
  "bind_io m f w = (case m w of (Inl e, w') \<Rightarrow> (Inl e, w') | (Inr x, w') \<Rightarrow> f x w')"

text \<open>
  \<^verbatim>\<open>try: body  except Exception as e: handler\<close>.  All of \<open>exc\<close> is below
  \<^verbatim>\<open>Exception\<close>, so the clause catches whatever the body raises.
\<close>

definition try_except ::
  "(world \<Rightarrow> (exc + 'a) \<times> world) \<Rightarrow> (exc \<Rightarrow> world \<Rightarrow> (exc + 'a) \<times> world) \<Rightarrow>
   world \<Rightarrow> (exc + 'a) \<times> world" where
  "try_except body handler w =
     (case body w of (Inl e, w') \<Rightarrow> handler e w' | (Inr x, w') \<Rightarrow> (Inr x, w'))"

text \<open>
  \<^verbatim>\<open>with smtplib.SMTP(host, port) as server: body\<close>.  When the constructor raises there
  is no object to leave.  Otherwise \<^verbatim>\<open>__exit__\<close> runs however the body ends; an
  exception of \<^verbatim>\<open>__exit__\<close> replaces the body's outcome, and without one the body's
  outcome (its exception included) stands.
\<close>

definition with_SMTP ::
  "string \<Rightarrow> int \<Rightarrow> (world \<Rightarrow> (exc + unit) \<times> world) \<Rightarrow> world \<Rightarrow> (exc + unit) \<times> world" where
  "with_SMTP host port body w =
     (case smtp_call (SMTP host port) w of
        (Inl e, w1) \<Rightarrow> (Inl e, w1)
      | (Inr _, w1) \<Rightarrow>
          (case body w1 of
             (r, w2) \<Rightarrow>
               (case smtp_call Exit w2 of
                  (Inl e', w3) \<Rightarrow> (Inl e', w3)
                | (Inr _, w3) \<Rightarrow> (r, w3))))"

section \<open>The two e-mails\<close>

text \<open>The \<^verbatim>\<open>with\<close> block both helpers end with.\<close>

definition deliver :: "EmailConfig \<Rightarrow> MIMEMultipart \<Rightarrow> world \<Rightarrow> (exc + unit) \<times> world" where
  "deliver cfg msg =
     with_SMTP (smtp_server cfg) (smtp_port cfg)
       (bind_io (smtp_call Starttls) (\<lambda>_.
        bind_io (smtp_call (Login (sender_email cfg) (sender_password cfg))) (\<lambda>_.
        smtp_call (Send_message msg))))"

subsection \<open>The internal notification\<close>

text \<open>\<^verbatim>\<open>consultation.company or 'Not provided'\<close>: \<^verbatim>\<open>None\<close> and the empty string are falsy.\<close>

definition company_or :: "ConsultationRequest \<Rightarrow> string" where
  "company_or c =
     (case company c of
        None \<Rightarrow> ''Not provided''
      | Some s \<Rightarrow> if s = [] then ''Not provided'' else s)"

text \<open>The two f-strings; \<open>received_at\<close> is the formatted clock reading.\<close>

definition notification_text :: "ConsultationRequest \<Rightarrow> string \<Rightarrow> string" where
  \<open>notification_text c received_at =
     ''\<newline>'' @
     ''        New Consultation Request\<newline>'' @
     ''        \<newline>'' @
     ''        Name: '' @ name c @ ''\<newline>'' @
     ''        Email: '' @ email c @ ''\<newline>'' @
     ''        Company: '' @ company_or c @ ''\<newline>'' @
     ''        \<newline>'' @
     ''        Message:\<newline>'' @
     ''        '' @ message c @ ''\<newline>'' @
     ''        \<newline>'' @
     ''        Received at: '' @ received_at @ ''\<newline>'' @
     ''        ''\<close>

definition notification_html :: "ConsultationRequest \<Rightarrow> string \<Rightarrow> string" where
  \<open>notification_html c received_at =
     ''\<newline>'' @
     ''        <html>\<newline>'' @
     ''          <body style="font-family: Arial, sans-serif; line-height: 1.6; color: #333;">\<newline>'' @
     ''            <div style="max-width: 600px; margin: 0 auto; padding: 20px;">\<newline>'' @
     ''              <h2 style="color: #667eea; border-bottom: 2px solid #667eea; padding-bottom: 10px;">\<newline>'' @
     ''                New Consultation Request\<newline>'' @
     ''              </h2>\<newline>'' @
     ''              \<newline>'' @
     ''              <div style="background-color: #f8f9fa; padding: 20px; border-radius: 8px; margin: 20px 0;">\<newline>'' @
     ''                <p><strong>Name:</strong> '' @ name c @ ''</p>\<newline>'' @
     ''                <p><strong>Email:</strong> <a href="mailto:'' @ email c @ ''">'' @ email c @ ''</a></p>\<newline>'' @
     ''                <p><strong>Company:</strong> '' @ company_or c @ ''</p>\<newline>'' @
     ''              </div>\<newline>'' @
     ''              \<newline>'' @
     ''              <div style="background-color: #ffffff; padding: 20px; border: 1px solid #e9ecef; border-radius: 8px;">\<newline>'' @
     ''                <h3 style="color: #495057; margin-top: 0;">Message:</h3>\<newline>'' @
     ''                <p style="white-space: pre-wrap;">'' @ message c @ ''</p>\<newline>'' @
     ''              </div>\<newline>'' @
     ''              \<newline>'' @
     ''              <div style="margin-top: 20px; padding-top: 20px; border-top: 1px solid #e9ecef; color: #6c757d; font-size: 14px;">\<newline>'' @
     ''                <p>Received at: '' @ received_at @ ''</p>\<newline>'' @
     ''              </div>\<newline>'' @
     ''            </div>\<newline>'' @
     ''          </body>\<newline>'' @
     ''        </html>\<newline>'' @
     ''        ''\<close>

definition notification_message ::
  "EmailConfig \<Rightarrow> ConsultationRequest \<Rightarrow> string \<Rightarrow> string \<Rightarrow> MIMEMultipart" where
  "notification_message cfg c at1 at2 =
     \<lparr> subtype = ''alternative'',
       headers = [(''Subject'', ''New Consultation Request from '' @ name c),
                  (''From'', sender_email cfg),
                  (''To'', receiver_email cfg)],
       payload = [MIMEText (notification_text c at1) ''plain'',
                  MIMEText (notification_html c at2) ''html''] \<rparr>"

definition send_email_notification ::
  "EmailConfig \<Rightarrow> ConsultationRequest \<Rightarrow> world \<Rightarrow> (exc + bool) \<times> world" where
  "send_email_notification cfg c =
     try_except
       (\<lambda>w0.
          let (t1, w1) = datetime_now w0;
              (t2, w2) = datetime_now w1;
              msg = notification_message cfg c (strftime t1) (strftime t2)
          in bind_io (deliver cfg msg) (\<lambda>_ w3.
               (Inr True,
                logger_info (''Email notification sent successfully for '' @ email c) w3)) w2)
       (\<lambda>e w.
          (Inr False, logger_error (''Failed to send email notification: '' @ str_exc e) w))"

subsection \<open>The confirmation to the submitter\<close>

definition confirmation_html :: "ConsultationRequest \<Rightarrow> string" where
  \<open>confirmation_html c =
     ''\<newline>'' @
     ''        <html>\<newline>'' @
     ''          <body style="font-family: Arial, sans-serif; line-height: 1.6; color: #333;">\<newline>'' @
     ''            <div style="max-width: 600px; margin: 0 auto; padding: 20px;">\<newline>'' @
     ''              <div style="text-align: center; margin-bottom: 30px;">\<newline>'' @
     ''                <h1 style="color: #667eea; margin: 0;">Neural<span style="color: #764ba2;">Forge</span></h1>\<newline>'' @
     ''                <p style="color: #6c757d; margin-top: 5px;">Intelligence at Scale</p>\<newline>'' @
     ''              </div>\<newline>'' @
     ''              \<newline>'' @
     ''              <h2 style="color: #495057;">Thank you for reaching out, '' @ name c @ ''!</h2>\<newline>'' @
     ''              \<newline>'' @
     ''              <p>We've received your consultation request and appreciate your interest in NeuralForge AI solutions.</p>\<newline>'' @
     ''              \<newline>'' @
     ''              <div style="background-color: #f8f9fa; padding: 20px; border-radius: 8px; margin: 20px 0;">\<newline>'' @
     ''                <h3 style="color: #667eea; margin-top: 0;">What happens next?</h3>\<newline>'' @
     ''                <ul style="color: #495057;">\<newline>'' @
     ''                  <li>Our team will review your request within 24 hours</li>\<newline>'' @
     ''                  <li>A specialist will reach out to schedule a consultation</li>\<newline>'' @
     ''                  <li>We'll prepare a customized AI solution proposal for your needs</li>\<newline>'' @
     ''                </ul>\<newline>'' @
     ''              </div>\<newline>'' @
     ''              \<newline>'' @
     ''              <p>In the meantime, feel free to explore our website for more information about our AI and data science services.</p>\<newline>'' @
     ''              \<newline>'' @
     ''              <div style="margin-top: 40px; padding-top: 20px; border-top: 1px solid #e9ecef; text-align: center; color: #6c757d; font-size: 14px;">\<newline>'' @
     ''                <p>'' @ [CHR 0xA9] @ '' 2024 NeuralForge AI. All rights reserved.</p>\<newline>'' @
     ''                <p>This is an automated response. Please do not reply to this email.</p>\<newline>'' @
     ''              </div>\<newline>'' @
     ''            </div>\<newline>'' @
     ''          </body>\<newline>'' @
     ''        </html>\<newline>'' @
     ''        ''\<close>

definition confirmation_message :: "EmailConfig \<Rightarrow> ConsultationRequest \<Rightarrow> MIMEMultipart" where
  "confirmation_message cfg c =
     \<lparr> subtype = ''alternative'',
       headers = [(''Subject'', ''Thank you for your consultation request - NeuralForge AI''),
                  (''From'', sender_email cfg),
                  (''To'', email c)],
       payload = [MIMEText (confirmation_html c) ''html''] \<rparr>"

definition send_confirmation_email ::
  "EmailConfig \<Rightarrow> ConsultationRequest \<Rightarrow> world \<Rightarrow> (exc + bool) \<times> world" where
  "send_confirmation_email cfg c =
     try_except
       (bind_io (deliver cfg (confirmation_message cfg c)) (\<lambda>_ w1.
          (Inr True, logger_info (''Confirmation email sent to '' @ email c) w1)))
       (\<lambda>e w.
          (Inr False, logger_error (''Failed to send confirmation email: '' @ str_exc e) w))"

section \<open>The HTTP routes\<close>

text \<open>\<^verbatim>\<open>GET /\<close>.\<close>

definition root :: json where
  "root =
     JObj [(''message'', JStr ''NeuralForge API is running''),
           (''version'', JStr ''1.0.0''),
           (''endpoints'',
            JObj [(''consultation'', JStr ''/api/consultation''),
                  (''health'', JStr ''/health'')])]"

text \<open>\<^verbatim>\<open>GET /health\<close>.\<close>

definition health_check :: "world \<Rightarrow> json \<times> world" where
  "health_check w =
     (let (t, w') = datetime_now w
      in (JObj [(''status'', JStr ''healthy''), (''timestamp'', JStr (isoformat t))], w'))"

text \<open>
  The handler of \<^verbatim>\<open>POST /api/consultation\<close>.  The \<^verbatim>\<open>raise HTTPException\<close> of the
  both-failed branch stands inside the \<^verbatim>\<open>try\<close> block, and \<^verbatim>\<open>HTTPException\<close> is a
  subclass of \<^verbatim>\<open>Exception\<close>.
\<close>

definition submit_consultation_body ::
  "EmailConfig \<Rightarrow> ConsultationRequest \<Rightarrow> world \<Rightarrow> (exc + json) \<times> world" where
  "submit_consultation_body cfg c w0 =
     bind_io (send_email_notification cfg c) (\<lambda>notification_sent.
     bind_io (send_confirmation_email cfg c) (\<lambda>confirmation_sent w.
       if \<not> notification_sent \<and> \<not> confirmation_sent then
         (Inl (HTTPException 500
                 ''Failed to process consultation request. Please try again later.''), w)
       else
         (let (t, w') = datetime_now w
          in (Inr (JObj [(''success'', JBool True),
                         (''message'',
                          JStr ''Your consultation request has been received. We'll be in touch soon!''),
                         (''timestamp'', JStr (isoformat t))]), w'))))
       (logger_info (''Received consultation request from '' @ email c) w0)"

definition submit_consultation ::
  "EmailConfig \<Rightarrow> ConsultationRequest \<Rightarrow> world \<Rightarrow> (exc + json) \<times> world" where
  "submit_consultation cfg c =
     try_except (submit_consultation_body cfg c)
       (\<lambda>e w.
          (Inl (HTTPException 500
                  ''An error occurred while processing your request. Please try again.''),
           logger_error (''Error processing consultation request: '' @ str_exc e) w))"

subsection \<open>What the framework does around the handler\<close>

text \<open>
  The handler's parameter is declared \<^verbatim>\<open>consultation: ConsultationRequest\<close>, so the
  framework builds it from the JSON object of the request body before it calls the
  handler, and answers 422 without calling it when a field does not validate.  The
  validator of the field type \<^verbatim>\<open>EmailStr\<close> belongs to a library outside this module: it
  is the parameter \<open>EmailStr\<close>, which gives the address to store, or \<open>None\<close> for a
  string that is no e-mail address.  The fields \<open>name\<close>, \<open>email\<close> and \<open>message\<close>
  are required strings; \<open>company\<close> may be absent, \<^verbatim>\<open>null\<close> or a string; keys the model
  does not declare are ignored.
\<close>

definition validate ::
  "(string \<Rightarrow> string option) \<Rightarrow> (string \<rightharpoonup> json) \<Rightarrow> ConsultationRequest option" where
  "validate EmailStr body =
     (case (body ''name'', body ''email'', body ''message'') of
        (Some (JStr n), Some (JStr e), Some (JStr m)) \<Rightarrow>
          (case EmailStr e of
             None \<Rightarrow> None
           | Some e' \<Rightarrow>
               (case body ''company'' of
                  None \<Rightarrow> Some \<lparr>name = n, email = e', company = None, message = m\<rparr>
                | Some JNull \<Rightarrow> Some \<lparr>name = n, email = e', company = None, message = m\<rparr>
                | Some (JStr s) \<Rightarrow> Some \<lparr>name = n, email = e', company = Some s, message = m\<rparr>
                | Some _ \<Rightarrow> None))
      | _ \<Rightarrow> None)"

text \<open>
  A response is a status code with a JSON body; the body of the 422 answer (the list of
  validation errors) is not modelled.
\<close>

datatype response = JSONResponse nat json | Unprocessable

fun status_code :: "response \<Rightarrow> nat" where
  "status_code (JSONResponse code _) = code"
| "status_code Unprocessable = 422"

text \<open>
  An \<^verbatim>\<open>HTTPException\<close> leaving the handler becomes a response with its status code and
  the body \<^verbatim>\<open>{"detail": detail}\<close>; any other exception becomes the framework's plain 500.
\<close>

definition post_api_consultation ::
  "(string \<Rightarrow> string option) \<Rightarrow> EmailConfig \<Rightarrow> (string \<rightharpoonup> json) \<Rightarrow> world \<Rightarrow>
   response \<times> world" where
  "post_api_consultation EmailStr cfg body w =
     (case validate EmailStr body of
        None \<Rightarrow> (Unprocessable, w)
      | Some c \<Rightarrow>
          (case submit_consultation cfg c w of
             (Inr r, w') \<Rightarrow> (JSONResponse 200 r, w')
           | (Inl (HTTPException code detail), w') \<Rightarrow>
               (JSONResponse code (JObj [(''detail'', JStr detail)]), w')
           | (Inl (RelayError s), w') \<Rightarrow>
               (JSONResponse 500 (JStr ''Internal Server Error''), w')))"

section \<open>Vocabulary of the properties\<close>

text \<open>
  The operations of one complete relay session for a message, and the operation
  sequences a \<^verbatim>\<open>with\<close> block can leave in the trace: the constructor alone when the
  connection fails, otherwise a prefix of the session's body followed by \<open>Exit\<close>.
\<close>

definition session :: "EmailConfig \<Rightarrow> MIMEMultipart \<Rightarrow> smtp_op list" where
  "session cfg msg =
     [SMTP (smtp_server cfg) (smtp_port cfg), Starttls,
      Login (sender_email cfg) (sender_password cfg), Send_message msg, Exit]"

definition attempts :: "EmailConfig \<Rightarrow> MIMEMultipart \<Rightarrow> smtp_op list list" where
  "attempts cfg msg =
     [[SMTP (smtp_server cfg) (smtp_port cfg)],
      [SMTP (smtp_server cfg) (smtp_port cfg), Starttls, Exit],
      [SMTP (smtp_server cfg) (smtp_port cfg), Starttls,
       Login (sender_email cfg) (sender_password cfg), Exit],
      session cfg msg]"

text \<open>The two \<open>detail\<close> strings of the handler.\<close>

definition both_failed_detail :: string where
  "both_failed_detail = ''Failed to process consultation request. Please try again later.''"

definition generic_detail :: string where
  "generic_detail = ''An error occurred while processing your request. Please try again.''"

text \<open>
  The shape of a string: every decimal digit replaced by \<open>9\<close>.  A timestamp is in the
  extended ISO 8601 format when its shape is that of a date, a \<open>T\<close> and a time, with or
  without a fraction of six digits.
\<close>

definition shape :: "string \<Rightarrow> string" where
  "shape s = map (\<lambda>ch. if digit_of ch = None then ch else CHR ''9'') s"

definition iso8601 :: "string \<Rightarrow> bool" where
  "iso8601 s = (shape s = ''9999-99-99T99:99:99'' \<or> shape s = ''9999-99-99T99:99:99.999999'')"

text \<open>The ranges Python's \<^verbatim>\<open>datetime\<close> keeps its fields in.\<close>

definition valid_datetime :: "datetime \<Rightarrow> bool" where
  "valid_datetime t =
     (1 \<le> year t \<and> year t \<le> 9999 \<and> 1 \<le> month t \<and> month t \<le> 12 \<and>
      1 \<le> day t \<and> day t \<le> 31 \<and> hour t \<le> 23 \<and> minute t \<le> 59 \<and> second t \<le> 59 \<and>
      microsecond t \<le> 999999)"

subsection \<open>Sample inputs\<close>

definition sample_request :: ConsultationRequest where
  "sample_request = \<lparr>name = ''Ann'', email = ''ann@example.org'', company = None, message = ''Hello''\<rparr>"

definition sample_config :: EmailConfig where
  "sample_config =
     \<lparr> smtp_server = ''smtp.gmail.com'', smtp_port = 587, sender_email = ''bot@example.org'',
       sender_password = ''secret'', receiver_email = ''hello@neuralforge.ai'' \<rparr>"

definition sample_time :: datetime where
  "sample_time =
     \<lparr>year = 2024, month = 5, day = 17, hour = 9, minute = 30, second = 0, microsecond = 1234\<rparr>"

text \<open>A relay that accepts every call, one that refuses every connection, and one that
  rejects the first login only.\<close>

definition world_up :: world where
  "world_up =
     \<lparr> clock = (\<lambda>n. sample_time), clock_reads = 0, relay = (\<lambda>h op. None),
       smtp_trace = [], log_lines = [] \<rparr>"

definition world_down :: world where
  "world_down = world_up\<lparr>relay := (\<lambda>h op. Some (RelayError ''Connection refused''))\<rparr>"

definition world_first_login_fails :: world where
  "world_first_login_fails =
     world_up\<lparr>relay := (\<lambda>h op. case op of
                                  Login u p \<Rightarrow> if length h < 5 then Some (RelayError ''535'') else None
                                | _ \<Rightarrow> None)\<rparr>"

text \<open>A stand-in for the address validator: it accepts the strings that hold an \<open>@\<close>.\<close>

definition sample_EmailStr :: "string \<Rightarrow> string option" where
  "sample_EmailStr s = (if CHR ''@'' \<in> set s then Some s else None)"

definition sample_body :: "string \<rightharpoonup> json" where
  "sample_body =
     [''name'' \<mapsto> JStr ''Ann'', ''email'' \<mapsto> JStr ''ann@example.org'', ''message'' \<mapsto> JStr ''Hello'']"

definition malformed_body :: "string \<rightharpoonup> json" where
  "malformed_body =
     [''name'' \<mapsto> JStr ''Ann'', ''email'' \<mapsto> JStr ''ann.example.org'', ''message'' \<mapsto> JStr ''Hello'']"

text \<open>The notification a call of \<open>send_email_notification\<close> in the world \<open>w\<close> composes:
  its two bodies carry the next two clock readings.\<close>

definition notification_of :: "EmailConfig \<Rightarrow> ConsultationRequest \<Rightarrow> world \<Rightarrow> MIMEMultipart" where
  "notification_of cfg c w =
     notification_message cfg c (strftime (clock w (clock_reads w)))
       (strftime (clock w (Suc (clock_reads w))))"

text \<open>A session in which no call raised, as it stands in the trace.\<close>

definition completed :: "EmailConfig \<Rightarrow> MIMEMultipart \<Rightarrow> (smtp_op \<times> exc option) list" where
  "completed cfg msg = map (\<lambda>op. (op, None)) (session cfg msg)"

text \<open>The handler's two local variables: what the helpers return when the handler runs in
  the world \<open>w\<close> (the second helper runs in the world the first one leaves).\<close>

definition notification_sent :: "EmailConfig \<Rightarrow> ConsultationRequest \<Rightarrow> world \<Rightarrow> bool" where
  "notification_sent cfg c w =
     (fst (send_email_notification cfg c
             (logger_info (''Received consultation request from '' @ email c) w)) = Inr True)"

definition confirmation_sent :: "EmailConfig \<Rightarrow> ConsultationRequest \<Rightarrow> world \<Rightarrow> bool" where
  "confirmation_sent cfg c w =
     (fst (send_confirmation_email cfg c
             (snd (send_email_notification cfg c
                     (logger_info (''Received consultation request from '' @ email c) w))))
      = Inr True)"

text \<open>The body of the success response with the timestamp \<open>ts\<close>.\<close>

definition success_body :: "string \<Rightarrow> json" where
  "success_body ts =
     JObj [(''success'', JBool True),
           (''message'',
            JStr ''Your consultation request has been received. We'll be in touch soon!''),
           (''timestamp'', JStr ts)]"

text \<open>An environment that sets the two sender variables and nothing else, and the same with
  one more variable that the module does not read.\<close>

definition sample_env :: environ where
  "sample_env = [''SENDER_EMAIL'' \<mapsto> ''bot@example.org'', ''SENDER_PASSWORD'' \<mapsto> ''secret'']"

definition sample_env_more :: environ where
  "sample_env_more = sample_env(''PATH'' \<mapsto> ''/usr/bin'')"

text \<open>The environment that sets no variable, and the configuration it gives.\<close>

definition empty_env :: environ where
  "empty_env = Map.empty"

definition unconfigured :: EmailConfig where
  "unconfigured =
     \<lparr> smtp_server = ''smtp.gmail.com'', smtp_port = 587,
       sender_email = ''your-email@gmail.com'', sender_password = ''your-app-password'',
       receiver_email = ''hello@neuralforge.ai'' \<rparr>"

section \<open>How the helpers change the world\<close>


lemma deliver_frame:
  assumes "deliver cfg msg w = (r, w')"
  shows "\<exists>ev. w' = w\<lparr>smtp_trace := smtp_trace w @ ev\<rparr> \<and> map fst ev \<in> set (attempts cfg msg)
     \<and> ((r = Inr ()) = (ev = completed cfg msg))"
  using assms
  by (auto simp: deliver_def with_SMTP_def bind_io_def smtp_call_def Let_def attempts_def session_def completed_def split: option.splits)

lemma deliver_up:
  assumes "relay w = (\<lambda>h op. None)"
  shows "deliver cfg msg w = (Inr (), w\<lparr>smtp_trace := smtp_trace w @ completed cfg msg\<rparr>)"
  using assms
  by (simp add: deliver_def with_SMTP_def bind_io_def smtp_call_def Let_def session_def completed_def)

lemma send_email_notification_frame:
  "\<exists>b ev line.
     send_email_notification cfg c w =
       (Inr b, w\<lparr>clock_reads := Suc (Suc (clock_reads w)),
                 smtp_trace := smtp_trace w @ ev,
                 log_lines := log_lines w @ [line]\<rparr>) \<and>
     map fst ev \<in> set (attempts cfg (notification_of cfg c w)) \<and>
     b = (ev = completed cfg (notification_of cfg c w))"
proof -
  define w2 where "w2 = w\<lparr>clock_reads := Suc (Suc (clock_reads w))\<rparr>"
  obtain r w3 where d: "deliver cfg (notification_of cfg c w) w2 = (r, w3)"
    by (cases "deliver cfg (notification_of cfg c w) w2")
  from deliver_frame [OF d] obtain ev where
    ev: "w3 = w2\<lparr>smtp_trace := smtp_trace w2 @ ev\<rparr>"
        "map fst ev \<in> set (attempts cfg (notification_of cfg c w))"
        "(r = Inr ()) = (ev = completed cfg (notification_of cfg c w))"
    by blast
  show ?thesis
  proof (cases r)
    case (Inl e)
    with d ev show ?thesis
      by (intro exI [of _ False] exI [of _ ev]
            exI [of _ "(ERROR, ''Failed to send email notification: '' @ str_exc e)"])
         (simp add: send_email_notification_def try_except_def bind_io_def datetime_now_def
            notification_of_def w2_def logger_error_def)
  next
    case (Inr u)
    with d ev show ?thesis
      by (intro exI [of _ True] exI [of _ ev]
            exI [of _ "(INFO, ''Email notification sent successfully for '' @ email c)"])
         (simp add: send_email_notification_def try_except_def bind_io_def datetime_now_def
            notification_of_def w2_def logger_info_def)
  qed
qed

lemma send_confirmation_email_frame:
  "\<exists>b ev line.
     send_confirmation_email cfg c w =
       (Inr b, w\<lparr>smtp_trace := smtp_trace w @ ev, log_lines := log_lines w @ [line]\<rparr>) \<and>
     map fst ev \<in> set (attempts cfg (confirmation_message cfg c)) \<and>
     b = (ev = completed cfg (confirmation_message cfg c))"
proof -
  obtain r w1 where d: "deliver cfg (confirmation_message cfg c) w = (r, w1)"
    by (cases "deliver cfg (confirmation_message cfg c) w")
  from deliver_frame [OF d] obtain ev where
    ev: "w1 = w\<lparr>smtp_trace := smtp_trace w @ ev\<rparr>"
        "map fst ev \<in> set (attempts cfg (confirmation_message cfg c))"
        "(r = Inr ()) = (ev = completed cfg (confirmation_message cfg c))"
    by blast
  show ?thesis
  proof (cases r)
    case (Inl e)
    with d ev show ?thesis
      by (intro exI [of _ False] exI [of _ ev]
            exI [of _ "(ERROR, ''Failed to send confirmation email: '' @ str_exc e)"])
         (simp add: send_confirmation_email_def try_except_def bind_io_def logger_error_def)
  next
    case (Inr u)
    with d ev show ?thesis
      by (intro exI [of _ True] exI [of _ ev]
            exI [of _ "(INFO, ''Confirmation email sent to '' @ email c)"])
         (simp add: send_confirmation_email_def try_except_def bind_io_def logger_info_def)
  qed
qed



lemma submit_consultation_body_unfold:
  assumes "send_email_notification cfg c
             (logger_info (''Received consultation request from '' @ email c) w) = (Inr b1, w1)"
      and "send_confirmation_email cfg c w1 = (Inr b2, w2)"
  shows "submit_consultation_body cfg c w =
           (if \<not> b1 \<and> \<not> b2 then (Inl (HTTPException 500 both_failed_detail), w2)
            else (Inr (success_body (isoformat (clock w2 (clock_reads w2)))),
                  w2\<lparr>clock_reads := Suc (clock_reads w2)\<rparr>))"
  using assms
  by (simp add: submit_consultation_body_def bind_io_def datetime_now_def both_failed_detail_def
        success_body_def)

lemma submit_consultation_unfold:
  assumes "send_email_notification cfg c
             (logger_info (''Received consultation request from '' @ email c) w) = (Inr b1, w1)"
      and "send_confirmation_email cfg c w1 = (Inr b2, w2)"
  shows "submit_consultation cfg c w =
           (if \<not> b1 \<and> \<not> b2 then
              (Inl (HTTPException 500 generic_detail),
               logger_error (''Error processing consultation request: '' @
                             str_exc (HTTPException 500 both_failed_detail)) w2)
            else (Inr (success_body (isoformat (clock w2 (clock_reads w2)))),
                  w2\<lparr>clock_reads := Suc (clock_reads w2)\<rparr>))"
  using submit_consultation_body_unfold [OF assms]
  by (simp add: submit_consultation_def try_except_def generic_detail_def)



lemma handler_outcome:
  "fst (submit_consultation cfg c w) =
     (if notification_sent cfg c w \<or> confirmation_sent cfg c w
      then Inr (success_body (isoformat (clock w (Suc (Suc (clock_reads w))))))
      else Inl (HTTPException 500 generic_detail))"
proof -
  define w0 where "w0 = logger_info (''Received consultation request from '' @ email c) w"
  from send_email_notification_frame [of cfg c w0] obtain b1 ev1 l1 where
    s1: "send_email_notification cfg c w0 =
           (Inr b1, w0\<lparr>clock_reads := Suc (Suc (clock_reads w0)),
                       smtp_trace := smtp_trace w0 @ ev1, log_lines := log_lines w0 @ [l1]\<rparr>)"
    by blast
  define w1 where "w1 = w0\<lparr>clock_reads := Suc (Suc (clock_reads w0)),
                       smtp_trace := smtp_trace w0 @ ev1, log_lines := log_lines w0 @ [l1]\<rparr>"
  from send_confirmation_email_frame [of cfg c w1] obtain b2 ev2 l2 where
    s2: "send_confirmation_email cfg c w1 =
           (Inr b2, w1\<lparr>smtp_trace := smtp_trace w1 @ ev2, log_lines := log_lines w1 @ [l2]\<rparr>)"
    by blast
  have n: "notification_sent cfg c w = b1"
    using s1 by (simp add: notification_sent_def w0_def)
  have k: "confirmation_sent cfg c w = b2"
    using s1 s2 by (simp add: confirmation_sent_def w0_def w1_def)
  from s1 have s1': "send_email_notification cfg c
             (logger_info (''Received consultation request from '' @ email c) w) = (Inr b1, w1)"
    by (simp add: w0_def w1_def)
  show ?thesis
    unfolding n k submit_consultation_unfold [OF s1' s2]
    by (simp add: w1_def w0_def logger_info_def)
qed



lemma body_outcome:
  "fst (submit_consultation_body cfg c w) =
     (if notification_sent cfg c w \<or> confirmation_sent cfg c w
      then Inr (success_body (isoformat (clock w (Suc (Suc (clock_reads w))))))
      else Inl (HTTPException 500 both_failed_detail))"
proof -
  define w0 where "w0 = logger_info (''Received consultation request from '' @ email c) w"
  from send_email_notification_frame [of cfg c w0] obtain b1 ev1 l1 where
    s1: "send_email_notification cfg c w0 =
           (Inr b1, w0\<lparr>clock_reads := Suc (Suc (clock_reads w0)),
                       smtp_trace := smtp_trace w0 @ ev1, log_lines := log_lines w0 @ [l1]\<rparr>)"
    by blast
  define w1 where "w1 = w0\<lparr>clock_reads := Suc (Suc (clock_reads w0)),
                       smtp_trace := smtp_trace w0 @ ev1, log_lines := log_lines w0 @ [l1]\<rparr>"
  from send_confirmation_email_frame [of cfg c w1] obtain b2 ev2 l2 where
    s2: "send_confirmation_email cfg c w1 =
           (Inr b2, w1\<lparr>smtp_trace := smtp_trace w1 @ ev2, log_lines := log_lines w1 @ [l2]\<rparr>)"
    by blast
  have n: "notification_sent cfg c w = b1"
    using s1 by (simp add: notification_sent_def w0_def)
  have k: "confirmation_sent cfg c w = b2"
    using s1 s2 by (simp add: confirmation_sent_def w0_def w1_def)
  from s1 have s1': "send_email_notification cfg c
             (logger_info (''Received consultation request from '' @ email c) w) = (Inr b1, w1)"
    by (simp add: w0_def w1_def)
  show ?thesis
    unfolding n k submit_consultation_body_unfold [OF s1' s2]
    by (simp add: w1_def w0_def logger_info_def)
qed

lemma route_outcome:
  assumes "validate EmailStr body = Some c"
  shows "fst (post_api_consultation EmailStr cfg body w) =
     (if notification_sent cfg c w \<or> confirmation_sent cfg c w
      then JSONResponse 200 (success_body (isoformat (clock w (Suc (Suc (clock_reads w))))))
      else JSONResponse 500 (JObj [(''detail'', JStr generic_detail)]))"
proof -
  obtain r w' where run: "submit_consultation cfg c w = (r, w')"
    by (cases "submit_consultation cfg c w")
  with handler_outcome [of cfg c w] have
    "r = (if notification_sent cfg c w \<or> confirmation_sent cfg c w
          then Inr (success_body (isoformat (clock w (Suc (Suc (clock_reads w))))))
          else Inl (HTTPException 500 generic_detail))"
    by simp
  with assms run show ?thesis
    by (simp add: post_api_consultation_def)
qed



lemma attempts_head:
  assumes "map fst ev \<in> set (attempts cfg msg)"
  shows "\<exists>out rest. ev = (SMTP (smtp_server cfg) (smtp_port cfg), out) # rest"
proof (cases ev)
  case Nil
  with assms show ?thesis by (simp add: attempts_def session_def)
next
  case (Cons x rest)
  with assms have "fst x = SMTP (smtp_server cfg) (smtp_port cfg)"
    by (auto simp: attempts_def session_def)
  with Cons show ?thesis by (cases x) simp
qed

lemma handler_run:
  "\<exists>b1 b2 ev1 ev2 w1 w2.
     send_email_notification cfg c
       (logger_info (''Received consultation request from '' @ email c) w) = (Inr b1, w1) \<and>
     send_confirmation_email cfg c w1 = (Inr b2, w2) \<and>
     smtp_trace w1 = smtp_trace w @ ev1 \<and>
     smtp_trace w2 = smtp_trace w1 @ ev2 \<and>
     map fst ev1 \<in> set (attempts cfg (notification_of cfg c w)) \<and>
     map fst ev2 \<in> set (attempts cfg (confirmation_message cfg c)) \<and>
     b1 = (ev1 = completed cfg (notification_of cfg c w)) \<and>
     b2 = (ev2 = completed cfg (confirmation_message cfg c)) \<and>
     smtp_trace (snd (submit_consultation cfg c w)) = smtp_trace w2"
proof -
  define w0 where "w0 = logger_info (''Received consultation request from '' @ email c) w"
  have same: "notification_of cfg c w0 = notification_of cfg c w"
    by (simp add: notification_of_def w0_def logger_info_def)
  from send_email_notification_frame [of cfg c w0] obtain b1 ev1 l1 where
    s1: "send_email_notification cfg c w0 =
           (Inr b1, w0\<lparr>clock_reads := Suc (Suc (clock_reads w0)),
                       smtp_trace := smtp_trace w0 @ ev1, log_lines := log_lines w0 @ [l1]\<rparr>)"
    and a1: "map fst ev1 \<in> set (attempts cfg (notification_of cfg c w0))"
    and c1: "b1 = (ev1 = completed cfg (notification_of cfg c w0))"
    by blast
  define w1 where "w1 = w0\<lparr>clock_reads := Suc (Suc (clock_reads w0)),
                       smtp_trace := smtp_trace w0 @ ev1, log_lines := log_lines w0 @ [l1]\<rparr>"
  from send_confirmation_email_frame [of cfg c w1] obtain b2 ev2 l2 where
    s2: "send_confirmation_email cfg c w1 =
           (Inr b2, w1\<lparr>smtp_trace := smtp_trace w1 @ ev2, log_lines := log_lines w1 @ [l2]\<rparr>)"
    and a2: "map fst ev2 \<in> set (attempts cfg (confirmation_message cfg c))"
    and c2: "b2 = (ev2 = completed cfg (confirmation_message cfg c))"
    by blast
  define w2 where "w2 = w1\<lparr>smtp_trace := smtp_trace w1 @ ev2, log_lines := log_lines w1 @ [l2]\<rparr>"
  have r1: "send_email_notification cfg c
              (logger_info (''Received consultation request from '' @ email c) w) = (Inr b1, w1)"
    using s1 by (simp add: w0_def w1_def)
  have r2: "send_confirmation_email cfg c w1 = (Inr b2, w2)"
    using s2 by (simp add: w2_def)
  have t1: "smtp_trace w1 = smtp_trace w @ ev1"
    by (simp add: w1_def w0_def logger_info_def)
  have t2: "smtp_trace w2 = smtp_trace w1 @ ev2"
    by (simp add: w2_def)
  have t3: "smtp_trace (snd (submit_consultation cfg c w)) = smtp_trace w2"
    unfolding submit_consultation_unfold [OF r1 r2]
    by (simp add: logger_error_def)
  from r1 r2 t1 t2 t3 a1 a2 c1 c2 same show ?thesis
    by (intro exI [of _ b1] exI [of _ b2] exI [of _ ev1] exI [of _ ev2]
          exI [of _ w1] exI [of _ w2]) simp
qed



lemma send_email_notification_up:
  assumes "relay w = (\<lambda>h op. None)"
  shows "send_email_notification cfg c w =
           (Inr True, w\<lparr>clock_reads := Suc (Suc (clock_reads w)),
                        smtp_trace := smtp_trace w @ completed cfg (notification_of cfg c w),
                        log_lines := log_lines w @
                          [(INFO, ''Email notification sent successfully for '' @ email c)]\<rparr>)"
  using assms
  by (simp add: send_email_notification_def try_except_def bind_io_def datetime_now_def
        deliver_up logger_info_def notification_of_def)

lemma send_confirmation_email_up:
  assumes "relay w = (\<lambda>h op. None)"
  shows "send_confirmation_email cfg c w =
           (Inr True, w\<lparr>smtp_trace := smtp_trace w @ completed cfg (confirmation_message cfg c),
                        log_lines := log_lines w @
                          [(INFO, ''Confirmation email sent to '' @ email c)]\<rparr>)"
  using assms
  by (simp add: send_confirmation_email_def try_except_def bind_io_def
        deliver_up logger_info_def)

lemma handler_trace_up:
  "smtp_trace (snd (submit_consultation cfg c (w\<lparr>relay := (\<lambda>h op. None)\<rparr>))) =
     smtp_trace w @ completed cfg (notification_of cfg c w) @
     completed cfg (confirmation_message cfg c)"
proof -
  define u where "u = w\<lparr>relay := (\<lambda>h op. None)\<rparr>"
  define w0 where "w0 = logger_info (''Received consultation request from '' @ email c) u"
  have rel0: "relay w0 = (\<lambda>h op. None)"
    by (simp add: w0_def u_def logger_info_def)
  define l1 where "l1 = (INFO, ''Email notification sent successfully for '' @ email c)"
  from send_email_notification_up [OF rel0, of cfg c] have
    s1: "send_email_notification cfg c w0 =
           (Inr True, w0\<lparr>clock_reads := Suc (Suc (clock_reads w0)),
                        smtp_trace := smtp_trace w0 @ completed cfg (notification_of cfg c w0),
                        log_lines := log_lines w0 @ [l1]\<rparr>)"
    by (simp add: l1_def)
  define w1 where "w1 = w0\<lparr>clock_reads := Suc (Suc (clock_reads w0)),
                        smtp_trace := smtp_trace w0 @ completed cfg (notification_of cfg c w0),
                        log_lines := log_lines w0 @ [l1]\<rparr>"
  have rel1: "relay w1 = (\<lambda>h op. None)"
    by (simp add: w1_def rel0)
  define l2 where "l2 = (INFO, ''Confirmation email sent to '' @ email c)"
  from send_confirmation_email_up [OF rel1, of cfg c] have
    s2: "send_confirmation_email cfg c w1 =
           (Inr True, w1\<lparr>smtp_trace := smtp_trace w1 @ completed cfg (confirmation_message cfg c),
                        log_lines := log_lines w1 @ [l2]\<rparr>)"
    by (simp add: l2_def)
  have same: "notification_of cfg c w0 = notification_of cfg c w"
    by (simp add: notification_of_def w0_def u_def logger_info_def)
  have r1: "send_email_notification cfg c
              (logger_info (''Received consultation request from '' @ email c) u) = (Inr True, w1)"
    using s1 by (simp add: w0_def w1_def)
  have "smtp_trace (snd (submit_consultation cfg c u)) =
          smtp_trace w @ completed cfg (notification_of cfg c w) @
          completed cfg (confirmation_message cfg c)"
    unfolding submit_consultation_unfold [OF r1 s2]
    by (simp add: w1_def same) (simp add: w0_def u_def logger_info_def)
  then show ?thesis by (simp add: u_def)
qed


lemma sublist_skip: "sublist xs ys \<Longrightarrow> sublist xs (zs @ ys)"
  by (metis sublist_append_leftI sublist_order.order.trans)

lemma sublist_here: "sublist xs (xs @ ys)"
  by (rule sublist_append_rightI)

lemma company_or_None: "company_or (c\<lparr>company := None\<rparr>) = ''Not provided''"
  by (simp add: company_or_def)

lemma company_or_Acme: "company_or (c\<lparr>company := Some ''Acme''\<rparr>) = ''Acme''"
  by (simp add: company_or_def)

lemma text_holds_company: "sublist (company_or c) (notification_text c at)"
  unfolding notification_text_def
  by (intro sublist_skip sublist_here)

lemma html_holds_company: "sublist (company_or c) (notification_html c at)"
  unfolding notification_html_def
  by (intro sublist_skip sublist_here)


subsection \<open>The shape of a timestamp\<close>

lemma digit_of_char_of: "d < 10 \<Longrightarrow> digit_of (char_of (48 + d)) = Some d"
  by (simp add: digit_of_def Let_def)

lemma shape_show_nat: "shape (show_nat n) = replicate (length (show_nat n)) (CHR ''9'')"
proof (induction n rule: show_nat.induct)
  case (1 n)
  show ?case
  proof (cases "n < 10")
    case True
    then show ?thesis
      by (simp add: show_nat.simps [of n] shape_def digit_of_char_of)
  next
    case False
    have "n mod 10 < 10" by simp
    then have d: "digit_of (char_of (48 + n mod 10)) = Some (n mod 10)"
      by (rule digit_of_char_of)
    from False 1 have ih: "shape (show_nat (n div 10)) =
        replicate (length (show_nat (n div 10))) (CHR ''9'')"
      by simp
    have "shape (show_nat n) = shape (show_nat (n div 10)) @ [CHR ''9'']"
      using False d by (simp add: show_nat.simps [of n] shape_def)
    with ih show ?thesis
      using False by (simp add: show_nat.simps [of n] replicate_append_same)
  qed
qed

lemma length_show_nat: "n < 10 ^ k \<Longrightarrow> 0 < k \<Longrightarrow> length (show_nat n) \<le> k"
proof (induction n arbitrary: k rule: show_nat.induct)
  case (1 n)
  show ?case
  proof (cases "n < 10")
    case True
    with 1(3) show ?thesis by (simp add: show_nat.simps [of n])
  next
    case False
    from 1(3) obtain j where k: "k = Suc j" by (cases k) auto
    from False 1(2) k have j: "0 < j" by (cases j) auto
    from 1(2) k have "n div 10 < 10 ^ j"
      by (simp add: less_mult_imp_div_less mult.commute)
    from 1(1) [OF False this j] have "length (show_nat (n div 10)) \<le> j" .
    with False k show ?thesis by (simp add: show_nat.simps [of n])
  qed
qed

lemma shape_zpad: "n < 10 ^ k \<Longrightarrow> 0 < k \<Longrightarrow> shape (zpad k n) = replicate k (CHR ''9'')"
proof -
  assume a: "n < 10 ^ k" "0 < k"
  have "shape (zpad k n) =
          replicate (k - length (show_nat n)) (CHR ''9'') @ shape (show_nat n)"
    by (simp add: zpad_def shape_def digit_of_def Let_def)
  also have "\<dots> = replicate (k - length (show_nat n) + length (show_nat n)) (CHR ''9'')"
    by (simp add: shape_show_nat replicate_add)
  also have "\<dots> = replicate k (CHR ''9'')"
    using length_show_nat [OF a] by simp
  finally show ?thesis .
qed

lemma shape_append: "shape (xs @ ys) = shape xs @ shape ys"
  by (simp add: shape_def)

lemma replicate_nines:
  "replicate 2 (CHR ''9'') = ''99''" "replicate 4 (CHR ''9'') = ''9999''"
  "replicate 6 (CHR ''9'') = ''999999''"
  by (simp_all add: numeral_eq_Suc)

lemma shape_zpad2: "n < 100 \<Longrightarrow> shape (zpad 2 n) = ''99''"
  using shape_zpad [of n 2] by (simp add: replicate_nines)

lemma shape_zpad4: "n < 10000 \<Longrightarrow> shape (zpad 4 n) = ''9999''"
  using shape_zpad [of n 4] by (simp add: replicate_nines)

lemma shape_zpad6: "n < 1000000 \<Longrightarrow> shape (zpad 6 n) = ''999999''"
  using shape_zpad [of n 6] by (simp add: replicate_nines)

lemma shape_Cons:
  "shape (ch # s) = (if digit_of ch = None then ch else CHR ''9'') # shape s"
  by (simp add: shape_def)

lemma shape_Nil: "shape [] = []"
  by (simp add: shape_def)

lemma separators_no_digits:
  "digit_of (CHR ''-'') = None" "digit_of (CHR ''T'') = None"
  "digit_of (CHR '':'') = None" "digit_of (CHR ''.'') = None"
  by (simp_all add: digit_of_def)

lemma iso8601_isoformat: "valid_datetime t \<Longrightarrow> iso8601 (isoformat t)"
proof -
  assume v: "valid_datetime t"
  then have y: "shape (zpad 4 (year t)) = ''9999''"
    by (intro shape_zpad4) (simp add: valid_datetime_def)
  from v have mo: "shape (zpad 2 (month t)) = ''99''"
    by (intro shape_zpad2) (simp add: valid_datetime_def)
  from v have d: "shape (zpad 2 (day t)) = ''99''"
    by (intro shape_zpad2) (simp add: valid_datetime_def)
  from v have h: "shape (zpad 2 (hour t)) = ''99''"
    by (intro shape_zpad2) (simp add: valid_datetime_def)
  from v have mi: "shape (zpad 2 (minute t)) = ''99''"
    by (intro shape_zpad2) (simp add: valid_datetime_def)
  from v have s: "shape (zpad 2 (second t)) = ''99''"
    by (intro shape_zpad2) (simp add: valid_datetime_def)
  from v have us: "shape (zpad 6 (microsecond t)) = ''999999''"
    by (intro shape_zpad6) (simp add: valid_datetime_def)
  show ?thesis
  proof (cases "microsecond t = 0")
    case True
    then have "shape (isoformat t) = ''9999-99-99T99:99:99''"
      by (simp add: isoformat_def shape_append shape_Cons shape_Nil separators_no_digits
            y mo d h mi s)
    then show ?thesis by (simp only: iso8601_def simp_thms)
  next
    case False
    then have "shape (isoformat t) = ''9999-99-99T99:99:99.999999''"
      by (simp add: isoformat_def shape_append shape_Cons shape_Nil separators_no_digits
            y mo d h mi s us)
    then show ?thesis by (simp only: iso8601_def simp_thms)
  qed
qed


subsection \<open>Loading the configuration\<close>

lemma py_int_587: "py_int ''587'' = Inr 587"
  by (simp add: py_int_def strip_def is_space_def digit_of_def)

section \<open>When a submission succeeds\<close>

text \<open>
  C1.  For every request body that validates, \<^verbatim>\<open>POST /api/consultation\<close> answers with
  the success body (status 200) if and only if at least one of the two helpers returned
  \<open>True\<close>, and with status 500 if and only if both returned \<open>False\<close>.  No other
  statement of the handler's \<^verbatim>\<open>try\<close> block raises, so the two cases are all there is.
\<close>

theorem consultation_success_iff_some_send:
  assumes "validate EmailStr body = Some c"
  shows "((\<exists>ts. fst (post_api_consultation EmailStr cfg body w) = JSONResponse 200 (success_body ts))
            \<longleftrightarrow> notification_sent cfg c w \<or> confirmation_sent cfg c w) \<and>
         (status_code (fst (post_api_consultation EmailStr cfg body w)) = 500
            \<longleftrightarrow> \<not> notification_sent cfg c w \<and> \<not> confirmation_sent cfg c w) \<and>
         (status_code (fst (post_api_consultation EmailStr cfg body w)) = 200
            \<longleftrightarrow> notification_sent cfg c w \<or> confirmation_sent cfg c w)"
  unfolding route_outcome [OF assms] by auto

theorem consultation_success_iff_some_send_witness:
  "validate sample_EmailStr sample_body = Some sample_request \<and>
   \<not> notification_sent sample_config sample_request world_first_login_fails \<and>
   confirmation_sent sample_config sample_request world_first_login_fails \<and>
   status_code (fst (post_api_consultation sample_EmailStr sample_config sample_body
                       world_first_login_fails)) = 200"
proof -
  have v: "validate sample_EmailStr sample_body = Some sample_request"
    by (simp add: validate_def sample_EmailStr_def sample_body_def sample_request_def)
  have n: "\<not> notification_sent sample_config sample_request world_first_login_fails"
    by (simp add: notification_sent_def send_email_notification_def try_except_def bind_io_def
          deliver_def with_SMTP_def smtp_call_def datetime_now_def logger_info_def
          logger_error_def world_first_login_fails_def world_up_def Let_def)
  have k: "confirmation_sent sample_config sample_request world_first_login_fails"
    by (simp add: confirmation_sent_def send_email_notification_def send_confirmation_email_def
          try_except_def bind_io_def deliver_def with_SMTP_def smtp_call_def datetime_now_def
          logger_info_def logger_error_def world_first_login_fails_def world_up_def Let_def)
  from consultation_success_iff_some_send [OF v, of sample_config world_first_login_fails] n k v
  show ?thesis by simp
qed

section \<open>The two sends are independent\<close>

text \<open>
  C2.  Whatever the relay does, the handler calls both helpers, the second in the world the
  first one leaves: each returns a boolean (no exception reaches the handler), and each
  makes a connection attempt of its own, which stands in the trace whatever the other
  helper returned.  So a failed notification does not keep the confirmation from being
  attempted, and a failed confirmation does not undo the attempt at the notification.
\<close>

theorem both_sends_always_attempted:
  "\<exists>b1 b2 w1 w2 out1 rest1 out2 rest2.
     send_email_notification cfg c
       (logger_info (''Received consultation request from '' @ email c) w) = (Inr b1, w1) \<and>
     send_confirmation_email cfg c w1 = (Inr b2, w2) \<and>
     smtp_trace w1 = smtp_trace w @ (SMTP (smtp_server cfg) (smtp_port cfg), out1) # rest1 \<and>
     smtp_trace w2 = smtp_trace w1 @ (SMTP (smtp_server cfg) (smtp_port cfg), out2) # rest2 \<and>
     smtp_trace (snd (submit_consultation cfg c w)) = smtp_trace w2 \<and>
     notification_sent cfg c w = b1 \<and> confirmation_sent cfg c w = b2"
proof -
  from handler_run [of cfg c w] obtain b1 b2 ev1 ev2 w1 w2 where
    r1: "send_email_notification cfg c
           (logger_info (''Received consultation request from '' @ email c) w) = (Inr b1, w1)"
    and r2: "send_confirmation_email cfg c w1 = (Inr b2, w2)"
    and t1: "smtp_trace w1 = smtp_trace w @ ev1"
    and t2: "smtp_trace w2 = smtp_trace w1 @ ev2"
    and a1: "map fst ev1 \<in> set (attempts cfg (notification_of cfg c w))"
    and a2: "map fst ev2 \<in> set (attempts cfg (confirmation_message cfg c))"
    and t3: "smtp_trace (snd (submit_consultation cfg c w)) = smtp_trace w2"
    by blast
  from attempts_head [OF a1] obtain out1 rest1 where
    e1: "ev1 = (SMTP (smtp_server cfg) (smtp_port cfg), out1) # rest1" by blast
  from attempts_head [OF a2] obtain out2 rest2 where
    e2: "ev2 = (SMTP (smtp_server cfg) (smtp_port cfg), out2) # rest2" by blast
  have n: "notification_sent cfg c w = b1"
    using r1 by (simp add: notification_sent_def)
  have k: "confirmation_sent cfg c w = b2"
    using r1 r2 by (simp add: confirmation_sent_def)
  from r1 r2 t1 t2 t3 e1 e2 n k show ?thesis
    by (intro exI [of _ b1] exI [of _ b2] exI [of _ w1] exI [of _ w2]
          exI [of _ out1] exI [of _ rest1] exI [of _ out2] exI [of _ rest2]) simp
qed

section \<open>Validation comes first\<close>

text \<open>
  C3.  A request body whose \<open>email\<close> field is missing, is no string, or is a string the
  address validator rejects does not validate: the route answers 422 without calling the
  handler, and leaves the world as it was, so no call reaches the relay.
\<close>

theorem malformed_email_rejected_before_any_send:
  assumes "\<not> (\<exists>e e'. body ''email'' = Some (JStr e) \<and> EmailStr e = Some e')"
  shows "validate EmailStr body = None \<and>
         post_api_consultation EmailStr cfg body w = (Unprocessable, w) \<and>
         smtp_trace (snd (post_api_consultation EmailStr cfg body w)) = smtp_trace w"
proof -
  have "validate EmailStr body = None"
    using assms
    by (auto simp: validate_def split: option.splits json.splits)
  then show ?thesis
    by (simp add: post_api_consultation_def)
qed

theorem malformed_email_rejected_before_any_send_witness:
  "\<not> (\<exists>e e'. malformed_body ''email'' = Some (JStr e) \<and> sample_EmailStr e = Some e') \<and>
   post_api_consultation sample_EmailStr sample_config malformed_body world_up =
     (Unprocessable, world_up) \<and>
   smtp_trace (snd (post_api_consultation sample_EmailStr sample_config malformed_body world_up))
     = []"
proof -
  have h: "\<not> (\<exists>e e'. malformed_body ''email'' = Some (JStr e) \<and> sample_EmailStr e = Some e')"
    by (simp add: malformed_body_def sample_EmailStr_def)
  have t: "smtp_trace world_up = []"
    by (simp add: world_up_def)
  from malformed_email_rejected_before_any_send
      [of malformed_body sample_EmailStr sample_config world_up] h t
  show ?thesis by simp
qed

section \<open>The company line of the notification\<close>

text \<open>
  C4.  The notification carries the plain-text body and the \<open>html\<close> body, in this order.
  When the request has no company, both bodies contain the placeholder
  \<open>Not provided\<close>; when the company is \<open>Acme\<close>, both contain \<open>Acme\<close>.  This holds
  for every name, address, message and clock reading.
\<close>

theorem company_placeholder_rendered:
  "payload (notification_message cfg c at1 at2) =
     [MIMEText (notification_text c at1) ''plain'', MIMEText (notification_html c at2) ''html''] \<and>
   sublist ''Not provided'' (notification_text (c\<lparr>company := None\<rparr>) at1) \<and>
   sublist ''Not provided'' (notification_html (c\<lparr>company := None\<rparr>) at2) \<and>
   sublist ''Acme'' (notification_text (c\<lparr>company := Some ''Acme''\<rparr>) at1) \<and>
   sublist ''Acme'' (notification_html (c\<lparr>company := Some ''Acme''\<rparr>) at2)"
proof (intro conjI)
  show "payload (notification_message cfg c at1 at2) =
     [MIMEText (notification_text c at1) ''plain'', MIMEText (notification_html c at2) ''html'']"
    by (simp add: notification_message_def)
  show "sublist ''Not provided'' (notification_text (c\<lparr>company := None\<rparr>) at1)"
    using text_holds_company [of "c\<lparr>company := None\<rparr>" at1]
    by (simp only: company_or_None)
  show "sublist ''Not provided'' (notification_html (c\<lparr>company := None\<rparr>) at2)"
    using html_holds_company [of "c\<lparr>company := None\<rparr>" at2]
    by (simp only: company_or_None)
  show "sublist ''Acme'' (notification_text (c\<lparr>company := Some ''Acme''\<rparr>) at1)"
    using text_holds_company [of "c\<lparr>company := Some ''Acme''\<rparr>" at1]
    by (simp only: company_or_Acme)
  show "sublist ''Acme'' (notification_html (c\<lparr>company := Some ''Acme''\<rparr>) at2)"
    using html_holds_company [of "c\<lparr>company := Some ''Acme''\<rparr>" at2]
    by (simp only: company_or_Acme)
qed

section \<open>What the caller learns from a failure\<close>

text \<open>
  C5.  When the handler ends with an error, the exception it raises is the
  \<^verbatim>\<open>HTTPException\<close> with status 500 and one fixed detail string.  Any two failing runs,
  whatever their request, configuration, relay and relay errors, raise the same exception,
  so neither the message of the underlying error nor the side that failed shows in it; the
  response of the route carries that detail and nothing else.
\<close>

theorem error_detail_is_generic:
  "(fst (submit_consultation cfg c w) = Inl e \<longrightarrow> e = HTTPException 500 generic_detail) \<and>
   (fst (submit_consultation cfg c w) = Inl e \<and> fst (submit_consultation cfg' c' w') = Inl e'
      \<longrightarrow> e = e') \<and>
   (validate EmailStr body = Some c \<and>
    status_code (fst (post_api_consultation EmailStr cfg body w)) \<noteq> 200 \<longrightarrow>
      fst (post_api_consultation EmailStr cfg body w) =
        JSONResponse 500 (JObj [(''detail'', JStr generic_detail)]))"
proof (intro conjI impI)
  assume "fst (submit_consultation cfg c w) = Inl e"
  with handler_outcome [of cfg c w] show "e = HTTPException 500 generic_detail"
    by (simp split: if_splits)
next
  assume "fst (submit_consultation cfg c w) = Inl e \<and> fst (submit_consultation cfg' c' w') = Inl e'"
  with handler_outcome [of cfg c w] handler_outcome [of cfg' c' w'] show "e = e'"
    by (simp split: if_splits)
next
  assume "validate EmailStr body = Some c \<and>
    status_code (fst (post_api_consultation EmailStr cfg body w)) \<noteq> 200"
  then have v: "validate EmailStr body = Some c"
    and s: "status_code (fst (post_api_consultation EmailStr cfg body w)) \<noteq> 200"
    by simp_all
  from s show "fst (post_api_consultation EmailStr cfg body w) =
        JSONResponse 500 (JObj [(''detail'', JStr generic_detail)])"
    unfolding route_outcome [OF v] by (simp split: if_splits)
qed

theorem error_detail_is_generic_witness:
  "fst (submit_consultation sample_config sample_request world_down) =
     Inl (HTTPException 500 generic_detail) \<and>
   fst (submit_consultation sample_config (sample_request\<lparr>email := ''bob@example.org''\<rparr>)
          (world_down\<lparr>relay := (\<lambda>h op. Some (RelayError ''Authentication failed''))\<rparr>)) =
     Inl (HTTPException 500 generic_detail) \<and>
   validate sample_EmailStr sample_body = Some sample_request \<and>
   fst (post_api_consultation sample_EmailStr sample_config sample_body world_down) =
     JSONResponse 500 (JObj [(''detail'', JStr generic_detail)])"
proof -
  have v: "validate sample_EmailStr sample_body = Some sample_request"
    by (simp add: validate_def sample_EmailStr_def sample_body_def sample_request_def)
  have r: "fst (submit_consultation sample_config sample_request world_down) =
     Inl (HTTPException 500 generic_detail)"
    by (simp add: submit_consultation_def submit_consultation_body_def
          send_email_notification_def send_confirmation_email_def try_except_def bind_io_def
          deliver_def with_SMTP_def smtp_call_def datetime_now_def logger_info_def
          logger_error_def world_down_def world_up_def Let_def generic_detail_def)
  have r': "fst (submit_consultation sample_config (sample_request\<lparr>email := ''bob@example.org''\<rparr>)
          (world_down\<lparr>relay := (\<lambda>h op. Some (RelayError ''Authentication failed''))\<rparr>)) =
     Inl (HTTPException 500 generic_detail)"
    by (simp add: submit_consultation_def submit_consultation_body_def
          send_email_notification_def send_confirmation_email_def try_except_def bind_io_def
          deliver_def with_SMTP_def smtp_call_def datetime_now_def logger_info_def
          logger_error_def world_down_def world_up_def Let_def generic_detail_def)
  have s: "status_code (fst (post_api_consultation sample_EmailStr sample_config sample_body
                               world_down)) \<noteq> 200"
    using v r by (cases "submit_consultation sample_config sample_request world_down")
      (simp add: post_api_consultation_def)
  from error_detail_is_generic [of sample_config sample_request world_down
      "HTTPException 500 generic_detail" sample_config
      "sample_request\<lparr>email := ''bob@example.org''\<rparr>"
      "world_down\<lparr>relay := (\<lambda>h op. Some (RelayError ''Authentication failed''))\<rparr>"
      "HTTPException 500 generic_detail" sample_EmailStr sample_body] v r r' s
  show ?thesis by simp
qed

text \<open>
  C6.  When both helpers return \<open>False\<close>, the \<^verbatim>\<open>try\<close> block raises the
  \<^verbatim>\<open>HTTPException\<close> with the both-failed detail, the handler's own
  \<^verbatim>\<open>except Exception\<close> clause catches it, and the handler raises the generic one in its
  place.  No run of the handler ends with the both-failed detail, under any status code,
  and no response of the route carries it.
\<close>

theorem both_failed_detail_never_observed:
  "(\<not> notification_sent cfg c w \<and> \<not> confirmation_sent cfg c w \<longrightarrow>
      fst (submit_consultation_body cfg c w) = Inl (HTTPException 500 both_failed_detail) \<and>
      fst (submit_consultation cfg c w) = Inl (HTTPException 500 generic_detail)) \<and>
   fst (submit_consultation cfg c w) \<noteq> Inl (HTTPException code both_failed_detail) \<and>
   (validate EmailStr body = Some c \<longrightarrow>
      fst (post_api_consultation EmailStr cfg body w) \<noteq>
        JSONResponse code' (JObj [(''detail'', JStr both_failed_detail)]))"
proof (intro conjI impI)
  assume "\<not> notification_sent cfg c w \<and> \<not> confirmation_sent cfg c w"
  then show "fst (submit_consultation_body cfg c w) = Inl (HTTPException 500 both_failed_detail)"
    and "fst (submit_consultation cfg c w) = Inl (HTTPException 500 generic_detail)"
    by (simp_all add: body_outcome handler_outcome)
next
  show "fst (submit_consultation cfg c w) \<noteq> Inl (HTTPException code both_failed_detail)"
    unfolding handler_outcome by (simp add: generic_detail_def both_failed_detail_def)
next
  assume v: "validate EmailStr body = Some c"
  show "fst (post_api_consultation EmailStr cfg body w) \<noteq>
          JSONResponse code' (JObj [(''detail'', JStr both_failed_detail)])"
    unfolding route_outcome [OF v]
    by (simp add: generic_detail_def both_failed_detail_def success_body_def)
qed

theorem both_failed_detail_never_observed_witness:
  "\<not> notification_sent sample_config sample_request world_down \<and>
   \<not> confirmation_sent sample_config sample_request world_down \<and>
   fst (submit_consultation_body sample_config sample_request world_down) =
     Inl (HTTPException 500 both_failed_detail) \<and>
   fst (submit_consultation sample_config sample_request world_down) =
     Inl (HTTPException 500 generic_detail) \<and>
   validate sample_EmailStr sample_body = Some sample_request \<and>
   fst (post_api_consultation sample_EmailStr sample_config sample_body world_down) \<noteq>
     JSONResponse 500 (JObj [(''detail'', JStr both_failed_detail)])"
proof -
  have v: "validate sample_EmailStr sample_body = Some sample_request"
    by (simp add: validate_def sample_EmailStr_def sample_body_def sample_request_def)
  have n: "\<not> notification_sent sample_config sample_request world_down"
    by (simp add: notification_sent_def send_email_notification_def try_except_def bind_io_def
          deliver_def with_SMTP_def smtp_call_def datetime_now_def logger_info_def
          logger_error_def world_down_def world_up_def Let_def)
  have k: "\<not> confirmation_sent sample_config sample_request world_down"
    by (simp add: confirmation_sent_def send_email_notification_def send_confirmation_email_def
          try_except_def bind_io_def deliver_def with_SMTP_def smtp_call_def datetime_now_def
          logger_info_def logger_error_def world_down_def world_up_def Let_def)
  from both_failed_detail_never_observed [of sample_config sample_request world_down 500
      sample_EmailStr sample_body 500] v n k
  show ?thesis by simp
qed

section \<open>The health route\<close>

text \<open>
  C7.  Every call of \<^verbatim>\<open>GET /health\<close> returns the status \<open>healthy\<close> and, as
  timestamp, the \<^verbatim>\<open>isoformat()\<close> of the clock reading taken by that call; the call does
  nothing else to the world.  For a reading within the ranges of a \<^verbatim>\<open>datetime\<close> the
  timestamp has the extended ISO 8601 format.
\<close>

theorem health_check_healthy_with_timestamp:
  "fst (health_check w) =
     JObj [(''status'', JStr ''healthy''),
           (''timestamp'', JStr (isoformat (fst (datetime_now w))))] \<and>
   snd (health_check w) = snd (datetime_now w) \<and>
   fst (datetime_now w) = clock w (clock_reads w) \<and>
   (valid_datetime (fst (datetime_now w)) \<longrightarrow> iso8601 (isoformat (fst (datetime_now w))))"
  by (simp add: health_check_def datetime_now_def iso8601_isoformat)

theorem health_check_healthy_with_timestamp_witness:
  "valid_datetime (fst (datetime_now world_up)) \<and>
   fst (health_check world_up) =
     JObj [(''status'', JStr ''healthy''), (''timestamp'', JStr ''2024-05-17T09:30:00.001234'')] \<and>
   iso8601 ''2024-05-17T09:30:00.001234''"
proof -
  have r: "fst (datetime_now world_up) = sample_time"
    by (simp add: datetime_now_def world_up_def)
  have v: "valid_datetime (fst (datetime_now world_up))"
    unfolding r by (simp add: valid_datetime_def sample_time_def)
  have i: "isoformat sample_time = ''2024-05-17T09:30:00.001234''"
    by code_simp
  from health_check_healthy_with_timestamp [of world_up] v r i
  show ?thesis by simp
qed

section \<open>Variables and defaults of the configuration\<close>

text \<open>
  C8, as the code has it.  When \<open>SMTP_PORT\<close> is unset the configuration loads and the
  port is 587.  In a loaded configuration the server is \<open>SMTP_SERVER\<close> or else
  \<open>smtp.gmail.com\<close>, the port is the integer value of \<open>SMTP_PORT\<close> or else of
  \<open>587\<close>, the receiver is \<open>RECEIVER_EMAIL\<close> or else \<open>hello@neuralforge.ai\<close>, the
  sender address is \<open>SENDER_EMAIL\<close> or else \<open>your-email@gmail.com\<close>, and the sender
  password is \<open>SENDER_PASSWORD\<close> or else \<open>your-app-password\<close>.  No other variable
  matters: two environments that agree on these five give the same result.
\<close>

theorem EMAIL_CONFIG_variables_and_defaults:
  "(env ''SMTP_PORT'' = None \<longrightarrow> (\<exists>cfg. EMAIL_CONFIG env = Inr cfg \<and> smtp_port cfg = 587)) \<and>
   (EMAIL_CONFIG env = Inr cfg \<longrightarrow>
      smtp_server cfg = (case env ''SMTP_SERVER'' of None \<Rightarrow> ''smtp.gmail.com'' | Some v \<Rightarrow> v) \<and>
      py_int (case env ''SMTP_PORT'' of None \<Rightarrow> ''587'' | Some v \<Rightarrow> v) = Inr (smtp_port cfg) \<and>
      receiver_email cfg =
        (case env ''RECEIVER_EMAIL'' of None \<Rightarrow> ''hello@neuralforge.ai'' | Some v \<Rightarrow> v) \<and>
      sender_email cfg =
        (case env ''SENDER_EMAIL'' of None \<Rightarrow> ''your-email@gmail.com'' | Some v \<Rightarrow> v) \<and>
      sender_password cfg =
        (case env ''SENDER_PASSWORD'' of None \<Rightarrow> ''your-app-password'' | Some v \<Rightarrow> v)) \<and>
   ((\<forall>key \<in> set [''SMTP_SERVER'', ''SMTP_PORT'', ''SENDER_EMAIL'', ''SENDER_PASSWORD'',
                   ''RECEIVER_EMAIL'']. env' key = env key) \<longrightarrow>
      EMAIL_CONFIG env' = EMAIL_CONFIG env)"
proof (intro conjI impI)
  assume "env ''SMTP_PORT'' = None"
  then show "\<exists>cfg. EMAIL_CONFIG env = Inr cfg \<and> smtp_port cfg = 587"
    by (simp add: EMAIL_CONFIG_def getenv_def py_int_587)
next
  assume c: "EMAIL_CONFIG env = Inr cfg"
  then show "smtp_server cfg =
      (case env ''SMTP_SERVER'' of None \<Rightarrow> ''smtp.gmail.com'' | Some v \<Rightarrow> v)"
    by (auto simp: EMAIL_CONFIG_def getenv_def split: sum.splits)
  from c show "py_int (case env ''SMTP_PORT'' of None \<Rightarrow> ''587'' | Some v \<Rightarrow> v) =
      Inr (smtp_port cfg)"
    by (auto simp: EMAIL_CONFIG_def getenv_def split: sum.splits)
  from c show "receiver_email cfg =
      (case env ''RECEIVER_EMAIL'' of None \<Rightarrow> ''hello@neuralforge.ai'' | Some v \<Rightarrow> v)"
    by (auto simp: EMAIL_CONFIG_def getenv_def split: sum.splits)
  from c show "sender_email cfg =
      (case env ''SENDER_EMAIL'' of None \<Rightarrow> ''your-email@gmail.com'' | Some v \<Rightarrow> v)"
    by (auto simp: EMAIL_CONFIG_def getenv_def split: sum.splits)
  from c show "sender_password cfg =
      (case env ''SENDER_PASSWORD'' of None \<Rightarrow> ''your-app-password'' | Some v \<Rightarrow> v)"
    by (auto simp: EMAIL_CONFIG_def getenv_def split: sum.splits)
next
  assume "\<forall>key \<in> set [''SMTP_SERVER'', ''SMTP_PORT'', ''SENDER_EMAIL'', ''SENDER_PASSWORD'',
                   ''RECEIVER_EMAIL'']. env' key = env key"
  then have g: "env' ''SMTP_SERVER'' = env ''SMTP_SERVER''"
    "env' ''SMTP_PORT'' = env ''SMTP_PORT''"
    "env' ''SENDER_EMAIL'' = env ''SENDER_EMAIL''"
    "env' ''SENDER_PASSWORD'' = env ''SENDER_PASSWORD''"
    "env' ''RECEIVER_EMAIL'' = env ''RECEIVER_EMAIL''"
    by simp_all
  show "EMAIL_CONFIG env' = EMAIL_CONFIG env"
    by (simp add: EMAIL_CONFIG_def getenv_def g split: sum.splits)
qed

theorem EMAIL_CONFIG_variables_and_defaults_witness:
  "sample_env ''SMTP_PORT'' = None \<and>
   EMAIL_CONFIG sample_env = Inr sample_config \<and>
   sample_env_more ''PATH'' \<noteq> sample_env ''PATH'' \<and>
   EMAIL_CONFIG sample_env_more = Inr sample_config \<and>
   smtp_server sample_config = ''smtp.gmail.com'' \<and> smtp_port sample_config = 587 \<and>
   receiver_email sample_config = ''hello@neuralforge.ai'' \<and>
   sender_email sample_config = ''bot@example.org'' \<and> sender_password sample_config = ''secret''"
proof -
  have p: "sample_env ''SMTP_PORT'' = None"
    by (simp add: sample_env_def)
  have c: "EMAIL_CONFIG sample_env = Inr sample_config"
    by (simp add: EMAIL_CONFIG_def getenv_def sample_env_def sample_config_def py_int_587)
  have k: "\<forall>key \<in> set [''SMTP_SERVER'', ''SMTP_PORT'', ''SENDER_EMAIL'', ''SENDER_PASSWORD'',
                   ''RECEIVER_EMAIL'']. sample_env_more key = sample_env key"
    by (simp add: sample_env_more_def)
  from EMAIL_CONFIG_variables_and_defaults [of sample_env sample_config sample_env_more] p c k
  show ?thesis by (simp add: sample_env_def sample_env_more_def)
qed

text \<open>
  The claim as first stated gives defaults for three variables and has the sender
  address and password read from the environment.  In the environment that sets nothing
  the configuration loads all the same, and its sender address and password are not
  values of the environment: the module has defaults for these two variables as well.
\<close>

theorem EMAIL_CONFIG_sender_defaults_counterexample:
  "EMAIL_CONFIG empty_env = Inr unconfigured \<and>
   empty_env ''SENDER_EMAIL'' \<noteq> Some (sender_email unconfigured) \<and>
   empty_env ''SENDER_PASSWORD'' \<noteq> Some (sender_password unconfigured) \<and>
   sender_email unconfigured = ''your-email@gmail.com'' \<and>
   sender_password unconfigured = ''your-app-password''"
  by (simp add: EMAIL_CONFIG_def getenv_def empty_env_def unconfigured_def py_int_587)

section \<open>Recipients and relay sessions\<close>

text \<open>
  C9.  The notification has one \<open>To\<close> header, the configured receiver; the confirmation
  has one, the submitter's address.  Whatever the relay does, the calls a submission makes
  on it are those of one \<^verbatim>\<open>with\<close> block for the notification followed by those of a
  second one for the confirmation: each opens with a connection of its own and, once
  connected, ends with its own exit.  With a relay that accepts every call the trace grows
  by two complete sessions (connect, STARTTLS, login, send, exit), the first carrying the
  notification and the second the confirmation.
\<close>

theorem recipients_and_separate_sessions:
  "[v. (k, v) \<leftarrow> headers (notification_message cfg c at1 at2), k = ''To''] = [receiver_email cfg] \<and>
   [v. (k, v) \<leftarrow> headers (confirmation_message cfg c), k = ''To''] = [email c] \<and>
   (\<exists>ev1 ev2.
      smtp_trace (snd (submit_consultation cfg c w)) = smtp_trace w @ ev1 @ ev2 \<and>
      map fst ev1 \<in> set (attempts cfg (notification_of cfg c w)) \<and>
      map fst ev2 \<in> set (attempts cfg (confirmation_message cfg c))) \<and>
   smtp_trace (snd (submit_consultation cfg c (w\<lparr>relay := (\<lambda>h op. None)\<rparr>))) =
     smtp_trace w @
     [(SMTP (smtp_server cfg) (smtp_port cfg), None), (Starttls, None),
      (Login (sender_email cfg) (sender_password cfg), None),
      (Send_message (notification_of cfg c w), None), (Exit, None)] @
     [(SMTP (smtp_server cfg) (smtp_port cfg), None), (Starttls, None),
      (Login (sender_email cfg) (sender_password cfg), None),
      (Send_message (confirmation_message cfg c), None), (Exit, None)]"
proof (intro conjI)
  show "[v. (k, v) \<leftarrow> headers (notification_message cfg c at1 at2), k = ''To''] = [receiver_email cfg]"
    by (simp add: notification_message_def)
  show "[v. (k, v) \<leftarrow> headers (confirmation_message cfg c), k = ''To''] = [email c]"
    by (simp add: confirmation_message_def)
  from handler_run [of cfg c w]
  show "\<exists>ev1 ev2.
      smtp_trace (snd (submit_consultation cfg c w)) = smtp_trace w @ ev1 @ ev2 \<and>
      map fst ev1 \<in> set (attempts cfg (notification_of cfg c w)) \<and>
      map fst ev2 \<in> set (attempts cfg (confirmation_message cfg c))"
    by force
  show "smtp_trace (snd (submit_consultation cfg c (w\<lparr>relay := (\<lambda>h op. None)\<rparr>))) =
     smtp_trace w @
     [(SMTP (smtp_server cfg) (smtp_port cfg), None), (Starttls, None),
      (Login (sender_email cfg) (sender_password cfg), None),
      (Send_message (notification_of cfg c w), None), (Exit, None)] @
     [(SMTP (smtp_server cfg) (smtp_port cfg), None), (Starttls, None),
      (Login (sender_email cfg) (sender_password cfg), None),
      (Send_message (confirmation_message cfg c), None), (Exit, None)]"
    unfolding handler_trace_up by (simp add: completed_def session_def)
qed
section \<open>The helpers never raise\<close>

text \<open>
  C10.  \<open>send_email_notification\<close> and \<open>send_confirmation_email\<close> return a boolean for
  every request, every configuration and every behaviour of the relay, and never pass an
  exception to their caller.  The boolean is \<open>True\<close> exactly when the relay session ran
  to its end with no call raising (connect, STARTTLS, login, send and exit), and
  \<open>False\<close> in every other case.
\<close>

theorem send_helpers_total:
  "(\<exists>b ev w'. send_email_notification cfg c w = (Inr b, w') \<and>
        smtp_trace w' = smtp_trace w @ ev \<and>
        b = (ev = completed cfg (notification_of cfg c w))) \<and>
   (\<exists>b ev w'. send_confirmation_email cfg c w = (Inr b, w') \<and>
        smtp_trace w' = smtp_trace w @ ev \<and>
        b = (ev = completed cfg (confirmation_message cfg c)))"
proof
  from send_email_notification_frame [of cfg c w]
  show "\<exists>b ev w'. send_email_notification cfg c w = (Inr b, w') \<and>
        smtp_trace w' = smtp_trace w @ ev \<and>
        b = (ev = completed cfg (notification_of cfg c w))"
    by force
next
  from send_confirmation_email_frame [of cfg c w]
  show "\<exists>b ev w'. send_confirmation_email cfg c w = (Inr b, w') \<and>
        smtp_trace w' = smtp_trace w @ ev \<and>
        b = (ev = completed cfg (confirmation_message cfg c))"
    by force
qed


end
